theory Spec2Isabelle
  imports Main
begin

section \<open>JavaScript values\<close>

text \<open>
  The two handlers of \<^verbatim>\<open>app.js\<close> receive \<^verbatim>\<open>req.body\<close> as parsed by
  \<^verbatim>\<open>express.json()\<close>: an object whose fields hold arbitrary JSON values. A
  destructured field that is absent is \<^verbatim>\<open>undefined\<close>. Strings are lists of characters
  standing for the code units of the JavaScript string; numbers are only ever tested for being
  zero, so integers stand for them.
\<close>

datatype jsval =
    JUndefined
  | JNull
  | JBool bool
  | JNum int
  | JStr string
  | JArr "jsval list"
  | JObj "(string \<times> jsval) list"

text \<open>The conversion to boolean that \<^verbatim>\<open>!x\<close> and \<^verbatim>\<open>x || y\<close> apply.\<close>

fun truthy :: "jsval \<Rightarrow> bool" where
  "truthy JUndefined = False"
| "truthy JNull = False"
| "truthy (JBool b) = b"
| "truthy (JNum n) = (n \<noteq> 0)"
| "truthy (JStr s) = (s \<noteq> [])"
| "truthy (JArr xs) = True"
| "truthy (JObj fs) = True"

text \<open>\<^verbatim>\<open>a || b\<close>\<close>

definition js_or :: "jsval \<Rightarrow> jsval \<Rightarrow> jsval" where
  "js_or a b = (if truthy a then a else b)"

text \<open>
  Property read on an object built from JSON: the own field, else \<^verbatim>\<open>undefined\<close>.
  The field list is the parsed object, so a key occurs in it once.
\<close>

definition get_field :: "(string \<times> jsval) list \<Rightarrow> string \<Rightarrow> jsval" where
  "get_field fs k = (case map_of fs k of None \<Rightarrow> JUndefined | Some v \<Rightarrow> v)"

text \<open>
  Interpolating a value into a template literal converts it to a string. For a value built from
  JSON this raises a \<^verbatim>\<open>TypeError\<close> exactly when the conversion meets an object with an own
  \<^verbatim>\<open>toString\<close> field (which cannot be a function): directly, or as an element of an
  array, whose conversion joins the conversions of its elements.
\<close>

fun tostring_throws :: "jsval \<Rightarrow> bool" where
  "tostring_throws (JObj fs) = (map_of fs ''toString'' \<noteq> None)"
| "tostring_throws (JArr xs) = list_ex tostring_throws xs"
| "tostring_throws v = False"

text \<open>\<^verbatim>\<open>x.length\<close> for a truthy value \<^verbatim>\<open>x\<close> built from JSON.\<close>

fun js_length :: "jsval \<Rightarrow> jsval" where
  "js_length (JStr s) = JNum (int (length s))"
| "js_length (JArr xs) = JNum (int (length xs))"
| "js_length (JObj fs) = get_field fs ''length''"
| "js_length v = JUndefined"

section \<open>Phone number normalisation\<close>

definition is_digit :: "char \<Rightarrow> bool" where
  "is_digit c = (c \<in> set ''0123456789'')"

text \<open>\<^verbatim>\<open>to.replace(/\D/g, '')\<close>\<close>

definition strip_non_digits :: "string \<Rightarrow> string" where
  "strip_non_digits s = filter is_digit s"

text \<open>\<^verbatim>\<open>s.startsWith(p)\<close>\<close>

definition startsWith :: "string \<Rightarrow> string \<Rightarrow> bool" where
  "startsWith s p = (take (length p) s = p)"

text \<open>Lines 42 to 47 of the emergency handler; \<^verbatim>\<open>to\<close> is a string here.\<close>

definition cleanPhoneNumber :: "string \<Rightarrow> string" where
  "cleanPhoneNumber to =
     (let stripped = strip_non_digits to in
      if length stripped = 10 then ''+1'' @ stripped
      else if \<not> startsWith stripped ''+'' then ''+'' @ stripped
      else stripped)"

section \<open>The provider and the HTTP exchange\<close>

text \<open>
  \<^verbatim>\<open>client.messages.create({body, from, to})\<close> is the one outbound call. The provider
  client is outside the program: it is a parameter of the handlers, mapping the arguments of the
  call to what the awaited promise does, resolving to a message instance with a \<^verbatim>\<open>sid\<close>
  and a \<^verbatim>\<open>status\<close> or rejecting with an error that carries a \<^verbatim>\<open>message\<close> and,
  possibly, a \<^verbatim>\<open>code\<close> (a number for the provider's own errors, a string for those of
  the network layer).
\<close>

record send_args =
  arg_body :: jsval
  arg_from :: jsval
  arg_to :: jsval

record message_instance =
  sid :: string
  status :: string

datatype errcode = NoCode | NumCode int | StrCode string

record js_error =
  err_message :: string
  err_code :: errcode

datatype provider_outcome = Resolved message_instance | Rejected js_error

type_synonym provider = "send_args \<Rightarrow> provider_outcome"

text \<open>\<^verbatim>\<open>error.code\<close> as a value.\<close>

fun code_val :: "errcode \<Rightarrow> jsval" where
  "code_val NoCode = JUndefined"
| "code_val (NumCode n) = JNum n"
| "code_val (StrCode s) = JStr s"

text \<open>A \<^verbatim>\<open>TypeError\<close> raised by the runtime: it has a message and no code.\<close>

definition type_error :: "string \<Rightarrow> js_error" where
  "type_error msg = \<lparr>err_message = msg, err_code = NoCode\<rparr>"

text \<open>
  What \<^verbatim>\<open>res.status(n).json(obj)\<close> is given: the status and the object literal, in
  the order of its fields (\<^verbatim>\<open>res.json(obj)\<close> alone answers 200).
\<close>

record http_response =
  status_code :: nat
  body :: "(string \<times> jsval) list"

text \<open>What one request did: the provider calls it issued, in order, and its answer.\<close>

record outcome =
  calls :: "send_args list"
  response :: http_response

text \<open>Stub providers, as used by tests: one that always resolves, one that always rejects.\<close>

definition stub_resolves :: "message_instance \<Rightarrow> provider" where
  "stub_resolves r a = Resolved r"

definition stub_rejects :: "js_error \<Rightarrow> provider" where
  "stub_rejects e a = Rejected e"

section \<open>POST /send-emergency-sms\<close>

text \<open>
  The three interpolations of the request summary that convert a value of the request
  (lines 50 to 52): \<^verbatim>\<open>contactName || 'Unknown'\<close>, \<^verbatim>\<open>hasLocation || false\<close> and
  \<^verbatim>\<open>message.length\<close>. The console output itself is not modelled, only whether producing
  it raises.
\<close>

definition log_request_throws :: "jsval \<Rightarrow> jsval \<Rightarrow> jsval \<Rightarrow> bool" where
  "log_request_throws contactName hasLocation message =
     (tostring_throws (js_or contactName (JStr ''Unknown''))
      \<or> tostring_throws (js_or hasLocation (JBool False))
      \<or> tostring_throws (js_length message))"

text \<open>
  The \<^verbatim>\<open>try\<close> block (lines 31 to 73). It yields the provider calls issued and either the
  response sent (\<open>Inr\<close>) or the error thrown (\<open>Inl\<close>). \<^verbatim>\<open>twilioPhoneNumber\<close> is the
  sender number read from the environment, \<^verbatim>\<open>now\<close> is what
  \<^verbatim>\<open>new Date().toISOString()\<close> returns when the response is built.
\<close>

definition emergency_try ::
    "jsval \<Rightarrow> provider \<Rightarrow> string \<Rightarrow> (string \<times> jsval) list
      \<Rightarrow> send_args list \<times> (js_error + http_response)" where
  "emergency_try twilioPhoneNumber client now req_body =
     (let to = get_field req_body ''to'';
          message = get_field req_body ''message'';
          contactName = get_field req_body ''contactName'';
          hasLocation = get_field req_body ''hasLocation''
      in
      if \<not> truthy to \<or> \<not> truthy message then
        ([], Inr \<lparr>status_code = 400,
                  body = [(''success'', JBool False),
                          (''error'', JStr ''Missing required fields: to, message'')]\<rparr>)
      else
        (case to of
           JStr s \<Rightarrow>
             (let clean = cleanPhoneNumber s in
              if log_request_throws contactName hasLocation message then
                ([], Inl (type_error ''Cannot convert object to primitive value''))
              else
                (let args = \<lparr>arg_body = message, arg_from = twilioPhoneNumber,
                             arg_to = JStr clean\<rparr>
                 in case client args of
                      Rejected error \<Rightarrow> ([args], Inl error)
                    | Resolved result \<Rightarrow>
                        ([args], Inr \<lparr>status_code = 200,
                                      body = [(''success'', JBool True),
                                              (''messageSid'', JStr (sid result)),
                                              (''status'', JStr (status result)),
                                              (''to'', JStr clean),
                                              (''timestamp'', JStr now)]\<rparr>)))
         | _ \<Rightarrow> ([], Inl (type_error ''to.replace is not a function''))))"

text \<open>The \<^verbatim>\<open>catch\<close> block (lines 75 to 90).\<close>

definition emergency_catch :: "string \<Rightarrow> js_error \<Rightarrow> http_response" where
  "emergency_catch now error =
     \<lparr>status_code = 500,
      body = [(''success'', JBool False),
              (''error'', JStr (err_message error)),
              (''code'', js_or (code_val (err_code error)) (JStr ''UNKNOWN_ERROR'')),
              (''timestamp'', JStr now)]\<rparr>"

definition send_emergency_sms ::
    "jsval \<Rightarrow> provider \<Rightarrow> string \<Rightarrow> (string \<times> jsval) list \<Rightarrow> outcome" where
  "send_emergency_sms twilioPhoneNumber client now req_body =
     (case emergency_try twilioPhoneNumber client now req_body of
        (cs, Inr res) \<Rightarrow> \<lparr>calls = cs, response = res\<rparr>
      | (cs, Inl error) \<Rightarrow> \<lparr>calls = cs, response = emergency_catch now error\<rparr>)"

section \<open>POST /test-sms\<close>

text \<open>
  The fixed body of the test message. Its first character is a pictograph outside ASCII, given
  here by the four bytes of its UTF-8 encoding.
\<close>

definition testMessage :: string where
  "testMessage =
     [CHR 0xF0, CHR 0x9F, CHR 0xA7, CHR 0xAA]
     @ '' This is a test message from your LunaLock emergency system. ''
     @ ''If you received this, the SMS integration is working correctly!''"

text \<open>
  The \<^verbatim>\<open>try\<close> block (lines 96 to 119). The log line after the call interpolates
  \<^verbatim>\<open>to\<close>, which is any truthy value here.
\<close>

definition test_try ::
    "jsval \<Rightarrow> provider \<Rightarrow> (string \<times> jsval) list
      \<Rightarrow> send_args list \<times> (js_error + http_response)" where
  "test_try twilioPhoneNumber client req_body =
     (let to = get_field req_body ''to'' in
      if \<not> truthy to then
        ([], Inr \<lparr>status_code = 400,
                  body = [(''success'', JBool False),
                          (''error'', JStr ''Phone number required'')]\<rparr>)
      else
        (let args = \<lparr>arg_body = JStr testMessage, arg_from = twilioPhoneNumber, arg_to = to\<rparr>
         in case client args of
              Rejected error \<Rightarrow> ([args], Inl error)
            | Resolved result \<Rightarrow>
                if tostring_throws to then
                  ([args], Inl (type_error ''Cannot convert object to primitive value''))
                else
                  ([args], Inr \<lparr>status_code = 200,
                                body = [(''success'', JBool True),
                                        (''messageSid'', JStr (sid result)),
                                        (''message'', JStr ''Test SMS sent successfully'')]\<rparr>)))"

text \<open>The \<^verbatim>\<open>catch\<close> block (lines 121 to 127).\<close>

definition test_catch :: "js_error \<Rightarrow> http_response" where
  "test_catch error =
     \<lparr>status_code = 500,
      body = [(''success'', JBool False), (''error'', JStr (err_message error))]\<rparr>"

definition test_sms :: "jsval \<Rightarrow> provider \<Rightarrow> (string \<times> jsval) list \<Rightarrow> outcome" where
  "test_sms twilioPhoneNumber client req_body =
     (case test_try twilioPhoneNumber client req_body of
        (cs, Inr res) \<Rightarrow> \<lparr>calls = cs, response = res\<rparr>
      | (cs, Inl error) \<Rightarrow> \<lparr>calls = cs, response = test_catch error\<rparr>)"

section \<open>Normalisation: properties\<close>

lemma strip_only_digits: "c \<in> set (strip_non_digits s) \<Longrightarrow> is_digit c"
  by (simp add: strip_non_digits_def)

lemma plus_not_digit: "\<not> is_digit (CHR ''+'')"
  by (simp add: is_digit_def)

lemma stripped_no_plus: "\<not> startsWith (strip_non_digits s) ''+''"
proof
  assume "startsWith (strip_non_digits s) ''+''"
  then have "take 1 (strip_non_digits s) = ''+''"
    by (simp add: startsWith_def)
  then have "CHR ''+'' \<in> set (strip_non_digits s)"
    by (cases "strip_non_digits s") auto
  then show False
    using strip_only_digits plus_not_digit by blast
qed

lemma strip_idem: "strip_non_digits (strip_non_digits s) = strip_non_digits s"
  by (simp add: strip_non_digits_def)

lemma strip_plus: "strip_non_digits (CHR ''+'' # s) = strip_non_digits s"
  by (simp add: strip_non_digits_def is_digit_def)

text \<open>
  C2. Whenever stripping the non-digits of \<^verbatim>\<open>to\<close> leaves exactly ten digits, the
  normalised number is \<^verbatim>\<open>+1\<close> followed by those ten digits.
\<close>

theorem ten_digits_get_plus_one:
  assumes "length (strip_non_digits to) = 10"
  shows "cleanPhoneNumber to = ''+1'' @ strip_non_digits to"
  using assms by (simp add: cleanPhoneNumber_def)

theorem ten_digits_get_plus_one_witness:
  "length (strip_non_digits ''(555) 123-4567'') = 10
   \<and> cleanPhoneNumber ''(555) 123-4567'' = ''+15551234567''"
  using ten_digits_get_plus_one [of "''(555) 123-4567''"]
  by (simp add: strip_non_digits_def is_digit_def)

text \<open>
  C3. Whenever the stripped digits do not number ten, the normalised number is \<^verbatim>\<open>+\<close>
  followed by the stripped digits, whether or not the input began with \<^verbatim>\<open>+\<close>; a
  leading \<^verbatim>\<open>+\<close> is never doubled, and normalising the reassembled number
  (\<^verbatim>\<open>+\<close> and the stripped digits) gives it back unchanged.
\<close>

theorem other_lengths_get_plus:
  assumes "length (strip_non_digits to) \<noteq> 10"
  shows "cleanPhoneNumber to = ''+'' @ strip_non_digits to
         \<and> cleanPhoneNumber (''+'' @ to) = ''+'' @ strip_non_digits to
         \<and> cleanPhoneNumber (''+'' @ strip_non_digits to) = ''+'' @ strip_non_digits to"
  using assms stripped_no_plus
  by (simp add: cleanPhoneNumber_def strip_plus strip_idem)

theorem other_lengths_get_plus_witness:
  "length (strip_non_digits ''44 7911 123456'') \<noteq> 10
   \<and> cleanPhoneNumber ''44 7911 123456'' = ''+447911123456''
   \<and> cleanPhoneNumber ''+44 7911 123456'' = ''+447911123456''
   \<and> cleanPhoneNumber ''+447911123456'' = ''+447911123456''"
  using other_lengths_get_plus [of "''44 7911 123456''"]
  by (simp add: strip_non_digits_def is_digit_def)

text \<open>
  C4, as the specification words it: for an input that begins with \<^verbatim>\<open>+\<close> and whose
  stripped digits do not number ten, the normalised number would be the input unchanged. It is
  not: the separators of \<^verbatim>\<open>+44 20 7946 0958\<close> are removed.
\<close>

theorem plus_prefixed_input_changed:
  "startsWith ''+44 20 7946 0958'' ''+''
   \<and> length (strip_non_digits ''+44 20 7946 0958'') \<noteq> 10
   \<and> cleanPhoneNumber ''+44 20 7946 0958'' = ''+442079460958''
   \<and> cleanPhoneNumber ''+44 20 7946 0958'' \<noteq> ''+44 20 7946 0958''"
  by (simp add: cleanPhoneNumber_def startsWith_def strip_non_digits_def is_digit_def)

text \<open>
  C4, amended. The test for a leading \<^verbatim>\<open>+\<close> is made on the stripped string, which
  never begins with \<^verbatim>\<open>+\<close>. So for an input that begins with \<^verbatim>\<open>+\<close> and whose
  stripped digits do not number ten, the normalised number is \<^verbatim>\<open>+\<close> followed by the
  digits of the input, and it equals the input exactly when everything after the leading
  \<^verbatim>\<open>+\<close> is a digit.
\<close>

theorem plus_prefixed_input_restripped:
  assumes "to = CHR ''+'' # rest"
    and "length (strip_non_digits to) \<noteq> 10"
  shows "\<not> startsWith (strip_non_digits to) ''+''
         \<and> cleanPhoneNumber to = CHR ''+'' # strip_non_digits rest
         \<and> (cleanPhoneNumber to = to \<longleftrightarrow> list_all is_digit rest)"
proof -
  have clean: "cleanPhoneNumber to = CHR ''+'' # strip_non_digits rest"
    using assms stripped_no_plus [of to]
    by (simp add: cleanPhoneNumber_def strip_plus)
  have "strip_non_digits rest = rest \<longleftrightarrow> list_all is_digit rest"
    by (simp add: strip_non_digits_def filter_id_conv list_all_iff)
  with clean assms(1) stripped_no_plus [of to] show ?thesis
    by simp
qed

theorem plus_prefixed_input_restripped_witness:
  "length (strip_non_digits ''+1 (555) 123-45678'') \<noteq> 10
   \<and> cleanPhoneNumber ''+1 (555) 123-45678'' = ''+155512345678''
   \<and> cleanPhoneNumber ''+1 (555) 123-45678'' \<noteq> ''+1 (555) 123-45678''"
  using plus_prefixed_input_restripped [of "''+1 (555) 123-45678''" "''1 (555) 123-45678''"]
  by (simp add: strip_non_digits_def is_digit_def)

section \<open>The emergency endpoint: properties\<close>

lemma emergency_rejected:
  assumes "\<not> truthy (get_field b ''to'') \<or> \<not> truthy (get_field b ''message'')"
  shows "send_emergency_sms sender client now b =
           \<lparr>calls = [],
            response = \<lparr>status_code = 400,
                        body = [(''success'', JBool False),
                                (''error'', JStr ''Missing required fields: to, message'')]\<rparr>\<rparr>"
  using assms by (auto simp add: send_emergency_sms_def emergency_try_def)

lemma emergency_not_a_string:
  assumes "truthy (get_field b ''to'')" and "truthy (get_field b ''message'')"
    and "\<forall>s. get_field b ''to'' \<noteq> JStr s"
  shows "send_emergency_sms sender client now b =
           \<lparr>calls = [],
            response = emergency_catch now (type_error ''to.replace is not a function'')\<rparr>"
  using assms
  by (cases "get_field b ''to''") (simp_all add: send_emergency_sms_def emergency_try_def)

lemma emergency_log_raises:
  assumes "get_field b ''to'' = JStr s" and "s \<noteq> []" and "truthy (get_field b ''message'')"
    and "log_request_throws (get_field b ''contactName'') (get_field b ''hasLocation'')
           (get_field b ''message'')"
  shows "send_emergency_sms sender client now b =
           \<lparr>calls = [],
            response =
              emergency_catch now (type_error ''Cannot convert object to primitive value'')\<rparr>"
  using assms by (simp add: send_emergency_sms_def emergency_try_def)

lemma emergency_sent:
  assumes "get_field b ''to'' = JStr s" and "s \<noteq> []" and "truthy (get_field b ''message'')"
    and "\<not> log_request_throws (get_field b ''contactName'') (get_field b ''hasLocation'')
             (get_field b ''message'')"
  shows "send_emergency_sms sender client now b =
           (let args = \<lparr>arg_body = get_field b ''message'', arg_from = sender,
                        arg_to = JStr (cleanPhoneNumber s)\<rparr>
            in case client args of
                 Rejected error \<Rightarrow> \<lparr>calls = [args], response = emergency_catch now error\<rparr>
               | Resolved result \<Rightarrow>
                   \<lparr>calls = [args],
                    response = \<lparr>status_code = 200,
                                body = [(''success'', JBool True),
                                        (''messageSid'', JStr (sid result)),
                                        (''status'', JStr (status result)),
                                        (''to'', JStr (cleanPhoneNumber s)),
                                        (''timestamp'', JStr now)]\<rparr>\<rparr>)"
  using assms
  by (simp add: send_emergency_sms_def emergency_try_def Let_def split: provider_outcome.split)

text \<open>
  The four ways through the emergency handler: rejected by validation, \<^verbatim>\<open>to\<close> not a
  string, a log line that raises, or the provider call issued.
\<close>

lemma emergency_cases:
  obtains
    (rejected) "\<not> truthy (get_field b ''to'') \<or> \<not> truthy (get_field b ''message'')"
  | (not_string) "truthy (get_field b ''to'')" "truthy (get_field b ''message'')"
      "\<forall>s. get_field b ''to'' \<noteq> JStr s"
  | (log_raises) s where "get_field b ''to'' = JStr s" "s \<noteq> []"
      "truthy (get_field b ''message'')"
      "log_request_throws (get_field b ''contactName'') (get_field b ''hasLocation'')
         (get_field b ''message'')"
  | (sent) s where "get_field b ''to'' = JStr s" "s \<noteq> []"
      "truthy (get_field b ''message'')"
      "\<not> log_request_throws (get_field b ''contactName'') (get_field b ''hasLocation'')
           (get_field b ''message'')"
  by (cases "get_field b ''to''") auto

text \<open>
  C1. For a request whose \<^verbatim>\<open>to\<close> and \<^verbatim>\<open>message\<close> are non-empty, when the provider
  call of the request returns a message instance, the endpoint answers 200 with
  \<^verbatim>\<open>success: true\<close>, the provider's \<^verbatim>\<open>sid\<close> as \<^verbatim>\<open>messageSid\<close>, the provider's
  \<^verbatim>\<open>status\<close>, the normalised number as \<^verbatim>\<open>to\<close>, and as \<^verbatim>\<open>timestamp\<close> the
  ISO string of the clock. (\<^verbatim>\<open>to\<close> is then a string: no call is issued otherwise.)
\<close>

theorem emergency_success_response:
  assumes "truthy (get_field b ''to'')" and "truthy (get_field b ''message'')"
    and "calls (send_emergency_sms sender client now b) = [a]"
    and "client a = Resolved r"
  shows "\<exists>s. get_field b ''to'' = JStr s
           \<and> response (send_emergency_sms sender client now b) =
               \<lparr>status_code = 200,
                body = [(''success'', JBool True),
                        (''messageSid'', JStr (sid r)),
                        (''status'', JStr (status r)),
                        (''to'', JStr (cleanPhoneNumber s)),
                        (''timestamp'', JStr now)]\<rparr>"
proof (cases b rule: emergency_cases)
  case rejected
  with assms(1,2) show ?thesis by simp
next
  case not_string
  with assms(3) show ?thesis by (simp add: emergency_not_a_string)
next
  case (log_raises s)
  with assms(3) show ?thesis by (simp add: emergency_log_raises)
next
  case (sent s)
  let ?args = "\<lparr>arg_body = get_field b ''message'', arg_from = sender,
                 arg_to = JStr (cleanPhoneNumber s)\<rparr>"
  from sent have out: "send_emergency_sms sender client now b =
      (case client ?args of
         Rejected error \<Rightarrow> \<lparr>calls = [?args], response = emergency_catch now error\<rparr>
       | Resolved result \<Rightarrow>
           \<lparr>calls = [?args],
            response = \<lparr>status_code = 200,
                        body = [(''success'', JBool True),
                                (''messageSid'', JStr (sid result)),
                                (''status'', JStr (status result)),
                                (''to'', JStr (cleanPhoneNumber s)),
                                (''timestamp'', JStr now)]\<rparr>\<rparr>)"
    by (simp add: emergency_sent [of b s sender client now] Let_def)
  with assms(3) have "a = ?args"
    by (cases "client ?args") simp_all
  with assms(4) out sent(1) show ?thesis by simp
qed

theorem emergency_success_response_witness:
  "truthy (get_field [(''to'', JStr ''5551234567''), (''message'', JStr ''help'')] ''to'')
   \<and> truthy (get_field [(''to'', JStr ''5551234567''), (''message'', JStr ''help'')] ''message'')
   \<and> calls (send_emergency_sms (JStr ''+15550001111'')
        (stub_resolves \<lparr>sid = ''SM123'', status = ''queued''\<rparr>) ''2024-05-01T12:00:00.000Z''
        [(''to'', JStr ''5551234567''), (''message'', JStr ''help'')])
       = [\<lparr>arg_body = JStr ''help'', arg_from = JStr ''+15550001111'',
           arg_to = JStr ''+15551234567''\<rparr>]
   \<and> response (send_emergency_sms (JStr ''+15550001111'')
        (stub_resolves \<lparr>sid = ''SM123'', status = ''queued''\<rparr>) ''2024-05-01T12:00:00.000Z''
        [(''to'', JStr ''5551234567''), (''message'', JStr ''help'')])
       = \<lparr>status_code = 200,
          body = [(''success'', JBool True),
                  (''messageSid'', JStr ''SM123''),
                  (''status'', JStr ''queued''),
                  (''to'', JStr ''+15551234567''),
                  (''timestamp'', JStr ''2024-05-01T12:00:00.000Z'')]\<rparr>"
proof -
  let ?b = "[(''to'', JStr ''5551234567''), (''message'', JStr ''help'')]"
  let ?a = "\<lparr>arg_body = JStr ''help'', arg_from = JStr ''+15550001111'',
              arg_to = JStr ''+15551234567''\<rparr>"
  let ?r = "\<lparr>sid = ''SM123'', status = ''queued''\<rparr>"
  have clean: "cleanPhoneNumber ''5551234567'' = ''+15551234567''"
    by (simp add: cleanPhoneNumber_def strip_non_digits_def is_digit_def)
  have t: "truthy (get_field ?b ''to'')" and m: "truthy (get_field ?b ''message'')"
    by (simp_all add: get_field_def)
  have c: "calls (send_emergency_sms (JStr ''+15550001111'') (stub_resolves ?r)
             ''2024-05-01T12:00:00.000Z'' ?b) = [?a]"
    by (simp add: send_emergency_sms_def emergency_try_def get_field_def clean
        log_request_throws_def js_or_def stub_resolves_def Let_def)
  have p: "stub_resolves ?r ?a = Resolved ?r"
    by (simp add: stub_resolves_def)
  from emergency_success_response [OF t m c p] have
    "response (send_emergency_sms (JStr ''+15550001111'') (stub_resolves ?r)
       ''2024-05-01T12:00:00.000Z'' ?b) =
       \<lparr>status_code = 200,
        body = [(''success'', JBool True), (''messageSid'', JStr ''SM123''),
                (''status'', JStr ''queued''), (''to'', JStr ''+15551234567''),
                (''timestamp'', JStr ''2024-05-01T12:00:00.000Z'')]\<rparr>"
    by (auto simp add: get_field_def clean)
  with t m c show ?thesis by simp
qed

text \<open>
  C5. A request in which \<^verbatim>\<open>to\<close> or \<^verbatim>\<open>message\<close> is absent or the empty string is
  answered 400, with \<^verbatim>\<open>success: false\<close> and an error message that does not depend on
  the request.
\<close>

theorem emergency_missing_field_400:
  assumes "get_field b ''to'' = JUndefined \<or> get_field b ''to'' = JStr []
           \<or> get_field b ''message'' = JUndefined \<or> get_field b ''message'' = JStr []"
  shows "response (send_emergency_sms sender client now b) =
           \<lparr>status_code = 400,
            body = [(''success'', JBool False),
                    (''error'', JStr ''Missing required fields: to, message'')]\<rparr>"
proof -
  from assms
  have "\<not> truthy (get_field b ''to'') \<or> \<not> truthy (get_field b ''message'')"
    by auto
  then show ?thesis
    by (simp add: emergency_rejected)
qed

theorem emergency_missing_field_400_witness:
  "get_field [] ''to'' = JUndefined
   \<and> response (send_emergency_sms (JStr ''+15550001111'')
        (stub_resolves \<lparr>sid = ''SM123'', status = ''queued''\<rparr>) ''2024-05-01T12:00:00.000Z'' [])
       = \<lparr>status_code = 400,
          body = [(''success'', JBool False),
                  (''error'', JStr ''Missing required fields: to, message'')]\<rparr>"
proof -
  have h: "get_field [] ''to'' = JUndefined"
    by (simp add: get_field_def)
  then have "get_field [] ''to'' = JUndefined \<or> get_field [] ''to'' = JStr []
      \<or> get_field [] ''message'' = JUndefined \<or> get_field [] ''message'' = JStr []"
    by simp
  from emergency_missing_field_400 [OF this] h show ?thesis
    by simp
qed

text \<open>
  C6, as the specification words it: when the provider's error carries a code, the response
  carries that code. It does not when the code is falsy: a provider error with code \<open>0\<close> is
  answered with the code \<^verbatim>\<open>UNKNOWN_ERROR\<close>.
\<close>

theorem emergency_zero_code_replaced:
  "calls (send_emergency_sms (JStr ''+15550001111'')
      (stub_rejects \<lparr>err_message = ''Invalid number'', err_code = NumCode 0\<rparr>)
      ''2024-05-01T12:00:00.000Z''
      [(''to'', JStr ''5551234567''), (''message'', JStr ''help'')])
     = [\<lparr>arg_body = JStr ''help'', arg_from = JStr ''+15550001111'',
         arg_to = JStr ''+15551234567''\<rparr>]
   \<and> response (send_emergency_sms (JStr ''+15550001111'')
        (stub_rejects \<lparr>err_message = ''Invalid number'', err_code = NumCode 0\<rparr>)
        ''2024-05-01T12:00:00.000Z''
        [(''to'', JStr ''5551234567''), (''message'', JStr ''help'')])
       = \<lparr>status_code = 500,
          body = [(''success'', JBool False),
                  (''error'', JStr ''Invalid number''),
                  (''code'', JStr ''UNKNOWN_ERROR''),
                  (''timestamp'', JStr ''2024-05-01T12:00:00.000Z'')]\<rparr>
   \<and> JStr ''UNKNOWN_ERROR'' \<noteq> code_val (NumCode 0)"
  by (simp add: send_emergency_sms_def emergency_try_def emergency_catch_def get_field_def
      cleanPhoneNumber_def strip_non_digits_def is_digit_def log_request_throws_def js_or_def
      stub_rejects_def Let_def)

text \<open>
  C6, amended. When the provider call of a request raises an error, the endpoint answers 500
  with \<^verbatim>\<open>success: false\<close>, the error's message verbatim, the clock's ISO string, and as
  \<^verbatim>\<open>code\<close> the error's code when that code is truthy (a number other than zero, a string
  other than the empty one), and the string \<^verbatim>\<open>UNKNOWN_ERROR\<close> when the error has no code
  or a falsy one.
\<close>

theorem emergency_provider_error_500:
  assumes "calls (send_emergency_sms sender client now b) = [a]"
    and "client a = Rejected e"
  shows "response (send_emergency_sms sender client now b) =
           \<lparr>status_code = 500,
            body = [(''success'', JBool False),
                    (''error'', JStr (err_message e)),
                    (''code'',
                       case err_code e of
                         NoCode \<Rightarrow> JStr ''UNKNOWN_ERROR''
                       | NumCode n \<Rightarrow> if n = 0 then JStr ''UNKNOWN_ERROR'' else JNum n
                       | StrCode c \<Rightarrow> if c = [] then JStr ''UNKNOWN_ERROR'' else JStr c),
                    (''timestamp'', JStr now)]\<rparr>"
proof (cases b rule: emergency_cases)
  case rejected
  with assms(1) show ?thesis by (simp add: emergency_rejected)
next
  case not_string
  with assms(1) show ?thesis by (simp add: emergency_not_a_string)
next
  case (log_raises s)
  with assms(1) show ?thesis by (simp add: emergency_log_raises)
next
  case (sent s)
  let ?args = "\<lparr>arg_body = get_field b ''message'', arg_from = sender,
                 arg_to = JStr (cleanPhoneNumber s)\<rparr>"
  from sent have out: "send_emergency_sms sender client now b =
      (case client ?args of
         Rejected error \<Rightarrow> \<lparr>calls = [?args], response = emergency_catch now error\<rparr>
       | Resolved result \<Rightarrow>
           \<lparr>calls = [?args],
            response = \<lparr>status_code = 200,
                        body = [(''success'', JBool True),
                                (''messageSid'', JStr (sid result)),
                                (''status'', JStr (status result)),
                                (''to'', JStr (cleanPhoneNumber s)),
                                (''timestamp'', JStr now)]\<rparr>\<rparr>)"
    by (simp add: emergency_sent [of b s sender client now] Let_def)
  with assms(1) have "a = ?args"
    by (cases "client ?args") simp_all
  with assms(2) out
  have "response (send_emergency_sms sender client now b) = emergency_catch now e"
    by simp
  then show ?thesis
    by (cases "err_code e") (simp_all add: emergency_catch_def js_or_def)
qed

theorem emergency_provider_error_500_witness:
  "calls (send_emergency_sms (JStr ''+15550001111'')
      (stub_rejects \<lparr>err_message = ''Invalid number'', err_code = NumCode 21211\<rparr>)
      ''2024-05-01T12:00:00.000Z''
      [(''to'', JStr ''5551234567''), (''message'', JStr ''help'')])
     = [\<lparr>arg_body = JStr ''help'', arg_from = JStr ''+15550001111'',
         arg_to = JStr ''+15551234567''\<rparr>]
   \<and> response (send_emergency_sms (JStr ''+15550001111'')
        (stub_rejects \<lparr>err_message = ''Invalid number'', err_code = NumCode 21211\<rparr>)
        ''2024-05-01T12:00:00.000Z''
        [(''to'', JStr ''5551234567''), (''message'', JStr ''help'')])
       = \<lparr>status_code = 500,
          body = [(''success'', JBool False),
                  (''error'', JStr ''Invalid number''),
                  (''code'', JNum 21211),
                  (''timestamp'', JStr ''2024-05-01T12:00:00.000Z'')]\<rparr>"
proof -
  let ?b = "[(''to'', JStr ''5551234567''), (''message'', JStr ''help'')]"
  let ?a = "\<lparr>arg_body = JStr ''help'', arg_from = JStr ''+15550001111'',
              arg_to = JStr ''+15551234567''\<rparr>"
  let ?e = "\<lparr>err_message = ''Invalid number'', err_code = NumCode 21211\<rparr>"
  have c: "calls (send_emergency_sms (JStr ''+15550001111'') (stub_rejects ?e)
             ''2024-05-01T12:00:00.000Z'' ?b) = [?a]"
    by (simp add: send_emergency_sms_def emergency_try_def get_field_def cleanPhoneNumber_def
        strip_non_digits_def is_digit_def log_request_throws_def js_or_def stub_rejects_def
        Let_def)
  have p: "stub_rejects ?e ?a = Rejected ?e"
    by (simp add: stub_rejects_def)
  from emergency_provider_error_500 [OF c p] c show ?thesis
    by simp
qed

text \<open>
  C8, as the specification words it: every request that passes validation issues exactly one
  provider call. A request whose \<^verbatim>\<open>to\<close> is the number \<open>5551234567\<close> rather than a
  string passes validation, issues no call and is answered 500.
\<close>

theorem emergency_numeric_to_no_call:
  "truthy (get_field [(''to'', JNum 5551234567), (''message'', JStr ''help'')] ''to'')
   \<and> truthy (get_field [(''to'', JNum 5551234567), (''message'', JStr ''help'')] ''message'')
   \<and> calls (send_emergency_sms (JStr ''+15550001111'')
        (stub_resolves \<lparr>sid = ''SM123'', status = ''queued''\<rparr>) ''2024-05-01T12:00:00.000Z''
        [(''to'', JNum 5551234567), (''message'', JStr ''help'')]) = []
   \<and> response (send_emergency_sms (JStr ''+15550001111'')
        (stub_resolves \<lparr>sid = ''SM123'', status = ''queued''\<rparr>) ''2024-05-01T12:00:00.000Z''
        [(''to'', JNum 5551234567), (''message'', JStr ''help'')])
       = \<lparr>status_code = 500,
          body = [(''success'', JBool False),
                  (''error'', JStr ''to.replace is not a function''),
                  (''code'', JStr ''UNKNOWN_ERROR''),
                  (''timestamp'', JStr ''2024-05-01T12:00:00.000Z'')]\<rparr>"
  by (simp add: send_emergency_sms_def emergency_try_def emergency_catch_def get_field_def
      type_error_def js_or_def)

text \<open>
  C8, amended. A request that passes validation, whose \<^verbatim>\<open>to\<close> is a string and whose
  logged values (\<^verbatim>\<open>contactName\<close>, \<^verbatim>\<open>hasLocation\<close>, \<^verbatim>\<open>message.length\<close>) are
  interpolated into the request summary without raising, issues exactly one provider call, with
  the request's \<^verbatim>\<open>message\<close> as body, the configured sender number as \<^verbatim>\<open>from\<close> and the
  normalised number as \<^verbatim>\<open>to\<close>. A request that passes validation and whose \<^verbatim>\<open>to\<close> is
  not a string issues no provider call and is answered 500.
\<close>

theorem emergency_one_call:
  assumes "truthy (get_field b ''to'')" and "truthy (get_field b ''message'')"
  shows "(\<forall>s. get_field b ''to'' = JStr s
              \<and> \<not> log_request_throws (get_field b ''contactName'')
                    (get_field b ''hasLocation'') (get_field b ''message'')
            \<longrightarrow> calls (send_emergency_sms sender client now b) =
                  [\<lparr>arg_body = get_field b ''message'', arg_from = sender,
                    arg_to = JStr (cleanPhoneNumber s)\<rparr>])
         \<and> ((\<forall>s. get_field b ''to'' \<noteq> JStr s)
            \<longrightarrow> calls (send_emergency_sms sender client now b) = []
                \<and> status_code (response (send_emergency_sms sender client now b)) = 500)"
proof (intro conjI allI impI)
  fix s
  assume h: "get_field b ''to'' = JStr s
    \<and> \<not> log_request_throws (get_field b ''contactName'')
          (get_field b ''hasLocation'') (get_field b ''message'')"
  with assms(1) have "s \<noteq> []" by auto
  with h assms(2) show "calls (send_emergency_sms sender client now b) =
      [\<lparr>arg_body = get_field b ''message'', arg_from = sender,
        arg_to = JStr (cleanPhoneNumber s)\<rparr>]"
    by (simp add: emergency_sent [of b s sender client now] Let_def
        split: provider_outcome.split)
next
  assume "\<forall>s. get_field b ''to'' \<noteq> JStr s"
  with assms show "calls (send_emergency_sms sender client now b) = []"
    by (simp add: emergency_not_a_string)
next
  assume "\<forall>s. get_field b ''to'' \<noteq> JStr s"
  with assms show "status_code (response (send_emergency_sms sender client now b)) = 500"
    by (simp add: emergency_not_a_string emergency_catch_def)
qed

theorem emergency_one_call_witness:
  "truthy (get_field [(''to'', JStr ''+44 20 7946 0958''), (''message'', JStr ''help''),
                      (''contactName'', JStr ''Ada''), (''hasLocation'', JBool True)] ''to'')
   \<and> truthy (get_field [(''to'', JStr ''+44 20 7946 0958''), (''message'', JStr ''help''),
                        (''contactName'', JStr ''Ada''), (''hasLocation'', JBool True)] ''message'')
   \<and> \<not> log_request_throws (JStr ''Ada'') (JBool True) (JStr ''help'')
   \<and> calls (send_emergency_sms (JStr ''+15550001111'')
        (stub_resolves \<lparr>sid = ''SM123'', status = ''queued''\<rparr>) ''2024-05-01T12:00:00.000Z''
        [(''to'', JStr ''+44 20 7946 0958''), (''message'', JStr ''help''),
         (''contactName'', JStr ''Ada''), (''hasLocation'', JBool True)])
       = [\<lparr>arg_body = JStr ''help'', arg_from = JStr ''+15550001111'',
           arg_to = JStr ''+442079460958''\<rparr>]"
proof -
  let ?b = "[(''to'', JStr ''+44 20 7946 0958''), (''message'', JStr ''help''),
             (''contactName'', JStr ''Ada''), (''hasLocation'', JBool True)]"
  have t: "truthy (get_field ?b ''to'')" and m: "truthy (get_field ?b ''message'')"
    by (simp_all add: get_field_def)
  have l: "\<not> log_request_throws (JStr ''Ada'') (JBool True) (JStr ''help'')"
    by (simp add: log_request_throws_def js_or_def)
  have clean: "cleanPhoneNumber ''+44 20 7946 0958'' = ''+442079460958''"
    by (simp add: cleanPhoneNumber_def startsWith_def strip_non_digits_def is_digit_def)
  from emergency_one_call [OF t m, of "JStr ''+15550001111''"
      "stub_resolves \<lparr>sid = ''SM123'', status = ''queued''\<rparr>" "''2024-05-01T12:00:00.000Z''"]
  have "\<forall>s. get_field ?b ''to'' = JStr s
          \<and> \<not> log_request_throws (get_field ?b ''contactName'')
                (get_field ?b ''hasLocation'') (get_field ?b ''message'')
        \<longrightarrow> calls (send_emergency_sms (JStr ''+15550001111'')
               (stub_resolves \<lparr>sid = ''SM123'', status = ''queued''\<rparr>)
               ''2024-05-01T12:00:00.000Z'' ?b) =
              [\<lparr>arg_body = get_field ?b ''message'', arg_from = JStr ''+15550001111'',
                arg_to = JStr (cleanPhoneNumber s)\<rparr>]"
    by (rule conjunct1)
  then have "calls (send_emergency_sms (JStr ''+15550001111'')
               (stub_resolves \<lparr>sid = ''SM123'', status = ''queued''\<rparr>)
               ''2024-05-01T12:00:00.000Z'' ?b) =
              [\<lparr>arg_body = JStr ''help'', arg_from = JStr ''+15550001111'',
                arg_to = JStr ''+442079460958''\<rparr>]"
    using l by (simp add: get_field_def clean)
  with t m l show ?thesis by simp
qed

lemma emergency_calls_sent:
  assumes "get_field b ''to'' = JStr s" and "s \<noteq> []" and "truthy (get_field b ''message'')"
    and "\<not> log_request_throws (get_field b ''contactName'') (get_field b ''hasLocation'')
             (get_field b ''message'')"
  shows "calls (send_emergency_sms sender client now b) =
           [\<lparr>arg_body = get_field b ''message'', arg_from = sender,
             arg_to = JStr (cleanPhoneNumber s)\<rparr>]"
  using assms
  by (simp add: emergency_sent [of b s sender client now] Let_def split: provider_outcome.split)

lemma emergency_calls_to:
  assumes "get_field b ''to'' = JStr s"
    and "a \<in> set (calls (send_emergency_sms sender client now b))"
  shows "arg_to a = JStr (cleanPhoneNumber s)"
proof (cases b rule: emergency_cases)
  case rejected
  with assms(2) show ?thesis by (simp add: emergency_rejected)
next
  case not_string
  with assms(1) show ?thesis by simp
next
  case (log_raises s')
  with assms(2) show ?thesis by (simp add: emergency_log_raises)
next
  case (sent s')
  with assms(1) have "s' = s" by simp
  with sent assms(2) show ?thesis by (simp add: emergency_calls_sent)
qed

lemma no_digit_strips_to_nothing:
  assumes "\<forall>c \<in> set s. \<not> is_digit c"
  shows "strip_non_digits s = []"
  using assms by (simp add: strip_non_digits_def)

lemma no_digit_clean: "strip_non_digits s = [] \<Longrightarrow> cleanPhoneNumber s = ''+''"
  by (simp add: cleanPhoneNumber_def startsWith_def)

text \<open>
  C9. For every string the emergency endpoint normalises, the normalised number begins with
  \<^verbatim>\<open>+\<close> and every character after it is a digit. In particular every input without
  a digit is normalised to the bare \<^verbatim>\<open>+\<close>: each provider call of a request with such a
  \<^verbatim>\<open>to\<close> has \<^verbatim>\<open>+\<close> as its \<^verbatim>\<open>to\<close>, and when the input is non-empty, so that it
  passes validation (with a truthy \<^verbatim>\<open>message\<close> and a request summary that is logged without
  raising), that call is issued. \<^verbatim>\<open>abc\<close> is such an input.
\<close>

theorem normalised_is_plus_then_digits:
  "cleanPhoneNumber to \<noteq> []
   \<and> hd (cleanPhoneNumber to) = CHR ''+''
   \<and> (\<forall>c \<in> set (tl (cleanPhoneNumber to)). is_digit c)
   \<and> ((\<forall>c \<in> set to. \<not> is_digit c) \<longrightarrow> cleanPhoneNumber to = ''+'')
   \<and> ((\<forall>c \<in> set to. \<not> is_digit c) \<and> get_field b ''to'' = JStr to
        \<longrightarrow> (\<forall>a \<in> set (calls (send_emergency_sms sender client now b)).
               arg_to a = JStr ''+''))
   \<and> ((\<forall>c \<in> set to. \<not> is_digit c) \<and> to \<noteq> [] \<and> get_field b ''to'' = JStr to
        \<and> truthy (get_field b ''message'')
        \<and> \<not> log_request_throws (get_field b ''contactName'') (get_field b ''hasLocation'')
              (get_field b ''message'')
        \<longrightarrow> calls (send_emergency_sms sender client now b) =
              [\<lparr>arg_body = get_field b ''message'', arg_from = sender, arg_to = JStr ''+''\<rparr>])
   \<and> cleanPhoneNumber ''abc'' = ''+''
   \<and> calls (send_emergency_sms sender client now
        [(''to'', JStr ''abc''), (''message'', JStr ''help'')])
       = [\<lparr>arg_body = JStr ''help'', arg_from = sender, arg_to = JStr ''+''\<rparr>]"
proof -
  have one: "is_digit (CHR ''1'')"
    by (simp add: is_digit_def)
  have shape: "cleanPhoneNumber to \<noteq> [] \<and> hd (cleanPhoneNumber to) = CHR ''+''
      \<and> (\<forall>c \<in> set (tl (cleanPhoneNumber to)). is_digit c)"
    using stripped_no_plus [of to] strip_only_digits [of _ to] one
    by (auto simp add: cleanPhoneNumber_def Let_def)
  have bare: "(\<forall>c \<in> set to. \<not> is_digit c) \<longrightarrow> cleanPhoneNumber to = ''+''"
    by (simp add: no_digit_strips_to_nothing no_digit_clean)
  have every: "(\<forall>c \<in> set to. \<not> is_digit c) \<and> get_field b ''to'' = JStr to
      \<longrightarrow> (\<forall>a \<in> set (calls (send_emergency_sms sender client now b)).
             arg_to a = JStr ''+'')"
  proof (intro impI ballI)
    fix a
    assume h: "(\<forall>c \<in> set to. \<not> is_digit c) \<and> get_field b ''to'' = JStr to"
      and a: "a \<in> set (calls (send_emergency_sms sender client now b))"
    from h a have "arg_to a = JStr (cleanPhoneNumber to)"
      by (simp add: emergency_calls_to [of b to a sender client now])
    with h bare show "arg_to a = JStr ''+''" by simp
  qed
  have issued: "(\<forall>c \<in> set to. \<not> is_digit c) \<and> to \<noteq> [] \<and> get_field b ''to'' = JStr to
      \<and> truthy (get_field b ''message'')
      \<and> \<not> log_request_throws (get_field b ''contactName'') (get_field b ''hasLocation'')
            (get_field b ''message'')
      \<longrightarrow> calls (send_emergency_sms sender client now b) =
            [\<lparr>arg_body = get_field b ''message'', arg_from = sender, arg_to = JStr ''+''\<rparr>]"
  proof
    assume h: "(\<forall>c \<in> set to. \<not> is_digit c) \<and> to \<noteq> [] \<and> get_field b ''to'' = JStr to
      \<and> truthy (get_field b ''message'')
      \<and> \<not> log_request_throws (get_field b ''contactName'') (get_field b ''hasLocation'')
            (get_field b ''message'')"
    then have "calls (send_emergency_sms sender client now b) =
        [\<lparr>arg_body = get_field b ''message'', arg_from = sender,
          arg_to = JStr (cleanPhoneNumber to)\<rparr>]"
      by (simp add: emergency_calls_sent [of b to sender client now])
    with h bare show "calls (send_emergency_sms sender client now b) =
        [\<lparr>arg_body = get_field b ''message'', arg_from = sender, arg_to = JStr ''+''\<rparr>]"
      by simp
  qed
  have abc: "cleanPhoneNumber ''abc'' = ''+''"
    by (simp add: cleanPhoneNumber_def startsWith_def strip_non_digits_def is_digit_def)
  have "calls (send_emergency_sms sender client now
          [(''to'', JStr ''abc''), (''message'', JStr ''help'')])
        = [\<lparr>arg_body = JStr ''help'', arg_from = sender, arg_to = JStr ''+''\<rparr>]"
    by (simp add: send_emergency_sms_def emergency_try_def get_field_def abc
        log_request_throws_def js_or_def Let_def split: provider_outcome.split)
  with shape bare every issued abc show ?thesis by blast
qed

theorem normalised_is_plus_then_digits_witness:
  "cleanPhoneNumber ''(555) 123-4567 ext. 89'' = ''+555123456789''
   \<and> hd ''+555123456789'' = CHR ''+''
   \<and> list_all is_digit ''555123456789''
   \<and> strip_non_digits ''n/a'' = []
   \<and> cleanPhoneNumber ''n/a'' = ''+''
   \<and> calls (send_emergency_sms (JStr ''+15550001111'')
        (stub_resolves \<lparr>sid = ''SM123'', status = ''queued''\<rparr>) ''2024-05-01T12:00:00.000Z''
        [(''to'', JStr ''n/a''), (''message'', JStr ''help''), (''contactName'', JStr ''Ada'')])
       = [\<lparr>arg_body = JStr ''help'', arg_from = JStr ''+15550001111'', arg_to = JStr ''+''\<rparr>]"
proof -
  let ?b = "[(''to'', JStr ''n/a''), (''message'', JStr ''help''), (''contactName'', JStr ''Ada'')]"
  let ?p = "stub_resolves \<lparr>sid = ''SM123'', status = ''queued''\<rparr>"
  have clean: "cleanPhoneNumber ''(555) 123-4567 ext. 89'' = ''+555123456789''"
    by (simp add: cleanPhoneNumber_def startsWith_def strip_non_digits_def is_digit_def)
  note inst1 = normalised_is_plus_then_digits [of "''(555) 123-4567 ext. 89''" ?b
      "JStr ''+15550001111''" ?p "''2024-05-01T12:00:00.000Z''"]
  from inst1 have "hd (cleanPhoneNumber ''(555) 123-4567 ext. 89'') = CHR ''+''"
    by (rule conjunct1 [OF conjunct2])
  moreover from inst1
  have "\<forall>c \<in> set (tl (cleanPhoneNumber ''(555) 123-4567 ext. 89'')). is_digit c"
    by (rule conjunct1 [OF conjunct2 [OF conjunct2]])
  ultimately
  have shape: "hd ''+555123456789'' = CHR ''+'' \<and> list_all is_digit ''555123456789''"
    by (simp only: clean list.sel list_all_iff)
  have nodigit: "\<forall>c \<in> set ''n/a''. \<not> is_digit c"
    by (simp add: is_digit_def)
  have strip: "strip_non_digits ''n/a'' = []"
    by (simp add: strip_non_digits_def is_digit_def)
  have g: "get_field ?b ''to'' = JStr ''n/a''" and m: "truthy (get_field ?b ''message'')"
    by (simp_all add: get_field_def)
  have l: "\<not> log_request_throws (get_field ?b ''contactName'') (get_field ?b ''hasLocation'')
      (get_field ?b ''message'')"
    by (simp add: get_field_def log_request_throws_def js_or_def)
  have msg: "get_field ?b ''message'' = JStr ''help''"
    by (simp add: get_field_def)
  note inst = normalised_is_plus_then_digits [of "''n/a''" ?b "JStr ''+15550001111''" ?p
      "''2024-05-01T12:00:00.000Z''"]
  from inst have "(\<forall>c \<in> set ''n/a''. \<not> is_digit c) \<longrightarrow> cleanPhoneNumber ''n/a'' = ''+''"
    by (rule conjunct1 [OF conjunct2 [OF conjunct2 [OF conjunct2]]])
  from this nodigit have bare: "cleanPhoneNumber ''n/a'' = ''+''"
    by (rule mp)
  from inst have "(\<forall>c \<in> set ''n/a''. \<not> is_digit c) \<and> ''n/a'' \<noteq> []
      \<and> get_field ?b ''to'' = JStr ''n/a''
      \<and> truthy (get_field ?b ''message'')
      \<and> \<not> log_request_throws (get_field ?b ''contactName'') (get_field ?b ''hasLocation'')
            (get_field ?b ''message'')
      \<longrightarrow> calls (send_emergency_sms (JStr ''+15550001111'') ?p
             ''2024-05-01T12:00:00.000Z'' ?b) =
            [\<lparr>arg_body = get_field ?b ''message'', arg_from = JStr ''+15550001111'',
              arg_to = JStr ''+''\<rparr>]"
    by (rule conjunct1 [OF conjunct2 [OF conjunct2 [OF conjunct2 [OF conjunct2
        [OF conjunct2]]]]])
  moreover have "(\<forall>c \<in> set ''n/a''. \<not> is_digit c) \<and> ''n/a'' \<noteq> []
      \<and> get_field ?b ''to'' = JStr ''n/a''
      \<and> truthy (get_field ?b ''message'')
      \<and> \<not> log_request_throws (get_field ?b ''contactName'') (get_field ?b ''hasLocation'')
            (get_field ?b ''message'')"
    using nodigit g m l by (intro conjI) simp_all
  ultimately have "calls (send_emergency_sms (JStr ''+15550001111'') ?p
      ''2024-05-01T12:00:00.000Z'' ?b) =
      [\<lparr>arg_body = get_field ?b ''message'', arg_from = JStr ''+15550001111'',
        arg_to = JStr ''+''\<rparr>]"
    by (rule mp)
  then have "calls (send_emergency_sms (JStr ''+15550001111'') ?p
      ''2024-05-01T12:00:00.000Z'' ?b) =
      [\<lparr>arg_body = JStr ''help'', arg_from = JStr ''+15550001111'', arg_to = JStr ''+''\<rparr>]"
    by (simp only: msg)
  with clean shape strip bare show ?thesis by simp
qed

section \<open>The test endpoint: properties\<close>

lemma test_rejected:
  assumes "\<not> truthy (get_field b ''to'')"
  shows "test_sms sender client b =
           \<lparr>calls = [],
            response = \<lparr>status_code = 400,
                        body = [(''success'', JBool False),
                                (''error'', JStr ''Phone number required'')]\<rparr>\<rparr>"
  using assms by (simp add: test_sms_def test_try_def)

lemma test_sent:
  assumes "truthy (get_field b ''to'')"
  shows "test_sms sender client b =
           (let args = \<lparr>arg_body = JStr testMessage, arg_from = sender,
                        arg_to = get_field b ''to''\<rparr>
            in case client args of
                 Rejected error \<Rightarrow> \<lparr>calls = [args], response = test_catch error\<rparr>
               | Resolved result \<Rightarrow>
                   if tostring_throws (get_field b ''to'') then
                     \<lparr>calls = [args],
                      response =
                        test_catch (type_error ''Cannot convert object to primitive value'')\<rparr>
                   else
                     \<lparr>calls = [args],
                      response = \<lparr>status_code = 200,
                                  body = [(''success'', JBool True),
                                          (''messageSid'', JStr (sid result)),
                                          (''message'', JStr ''Test SMS sent successfully'')]\<rparr>\<rparr>)"
  using assms
  by (simp add: test_sms_def test_try_def Let_def split: provider_outcome.split)

lemma test_calls:
  assumes "truthy (get_field b ''to'')"
  shows "calls (test_sms sender client b) =
           [\<lparr>arg_body = JStr testMessage, arg_from = sender, arg_to = get_field b ''to''\<rparr>]"
  using assms
  by (simp add: test_sent [of b sender client] Let_def split: provider_outcome.split)

text \<open>
  C7, as the specification words it: for every request with a present \<^verbatim>\<open>to\<close>, provider
  success is answered 200. It is not when \<^verbatim>\<open>to\<close> is an object with a field
  \<^verbatim>\<open>toString\<close>: the call is issued with that object, the provider resolves, the log line
  after the call (line 113) raises on interpolating \<^verbatim>\<open>to\<close>, and the answer is 500.
\<close>

theorem test_object_to_500:
  "map_of [(''to'', JObj [(''toString'', JNum 1)])] ''to'' = Some (JObj [(''toString'', JNum 1)])
   \<and> calls (test_sms (JStr ''+15550001111'')
        (stub_resolves \<lparr>sid = ''SM123'', status = ''queued''\<rparr>)
        [(''to'', JObj [(''toString'', JNum 1)])])
       = [\<lparr>arg_body = JStr testMessage, arg_from = JStr ''+15550001111'',
           arg_to = JObj [(''toString'', JNum 1)]\<rparr>]
   \<and> stub_resolves \<lparr>sid = ''SM123'', status = ''queued''\<rparr>
        \<lparr>arg_body = JStr testMessage, arg_from = JStr ''+15550001111'',
         arg_to = JObj [(''toString'', JNum 1)]\<rparr>
       = Resolved \<lparr>sid = ''SM123'', status = ''queued''\<rparr>
   \<and> response (test_sms (JStr ''+15550001111'')
        (stub_resolves \<lparr>sid = ''SM123'', status = ''queued''\<rparr>)
        [(''to'', JObj [(''toString'', JNum 1)])])
       = \<lparr>status_code = 500,
          body = [(''success'', JBool False),
                  (''error'', JStr ''Cannot convert object to primitive value'')]\<rparr>"
  by (simp add: test_sms_def test_try_def test_catch_def type_error_def get_field_def
      stub_resolves_def Let_def)

text \<open>
  C7, amended. The test endpoint applies no normalisation: whatever \<^verbatim>\<open>to\<close> holds, every
  provider call it issues has that value unmodified as \<^verbatim>\<open>to\<close>, the fixed test message as
  body and the configured sender as \<^verbatim>\<open>from\<close>, and a truthy \<^verbatim>\<open>to\<close> gives exactly
  that one call. When the call returns a message instance, the endpoint answers 200 with exactly
  \<^verbatim>\<open>success: true\<close>, the provider's \<^verbatim>\<open>sid\<close> as \<^verbatim>\<open>messageSid\<close> and the message
  \<^verbatim>\<open>Test SMS sent successfully\<close> if \<^verbatim>\<open>to\<close> is interpolated into the log line without
  raising, as every non-empty string is, and 500 with the \<^verbatim>\<open>TypeError\<close>'s message if not.
  When \<^verbatim>\<open>to\<close> is absent, or present and falsy as the empty string is, it answers 400 and
  issues no call.
\<close>

theorem test_sms_passes_to_through:
  "(\<forall>a \<in> set (calls (test_sms sender client b)).
      a = \<lparr>arg_body = JStr testMessage, arg_from = sender, arg_to = get_field b ''to''\<rparr>)
   \<and> (truthy (get_field b ''to'')
        \<longrightarrow> calls (test_sms sender client b) =
              [\<lparr>arg_body = JStr testMessage, arg_from = sender, arg_to = get_field b ''to''\<rparr>])
   \<and> (\<forall>r. truthy (get_field b ''to'') \<and> \<not> tostring_throws (get_field b ''to'')
          \<and> client \<lparr>arg_body = JStr testMessage, arg_from = sender,
                     arg_to = get_field b ''to''\<rparr> = Resolved r
        \<longrightarrow> response (test_sms sender client b) =
              \<lparr>status_code = 200,
               body = [(''success'', JBool True),
                       (''messageSid'', JStr (sid r)),
                       (''message'', JStr ''Test SMS sent successfully'')]\<rparr>)
   \<and> (\<forall>s r. get_field b ''to'' = JStr s \<and> s \<noteq> []
          \<and> client \<lparr>arg_body = JStr testMessage, arg_from = sender, arg_to = JStr s\<rparr>
              = Resolved r
        \<longrightarrow> calls (test_sms sender client b) =
              [\<lparr>arg_body = JStr testMessage, arg_from = sender, arg_to = JStr s\<rparr>]
            \<and> response (test_sms sender client b) =
              \<lparr>status_code = 200,
               body = [(''success'', JBool True),
                       (''messageSid'', JStr (sid r)),
                       (''message'', JStr ''Test SMS sent successfully'')]\<rparr>)
   \<and> (\<forall>r. truthy (get_field b ''to'') \<and> tostring_throws (get_field b ''to'')
          \<and> client \<lparr>arg_body = JStr testMessage, arg_from = sender,
                     arg_to = get_field b ''to''\<rparr> = Resolved r
        \<longrightarrow> response (test_sms sender client b) =
              \<lparr>status_code = 500,
               body = [(''success'', JBool False),
                       (''error'', JStr ''Cannot convert object to primitive value'')]\<rparr>)
   \<and> (\<not> truthy (get_field b ''to'')
        \<longrightarrow> calls (test_sms sender client b) = []
            \<and> response (test_sms sender client b) =
              \<lparr>status_code = 400,
               body = [(''success'', JBool False),
                       (''error'', JStr ''Phone number required'')]\<rparr>)
   \<and> (map_of b ''to'' = None
        \<longrightarrow> status_code (response (test_sms sender client b)) = 400)"
proof (intro conjI)
  show "\<forall>a \<in> set (calls (test_sms sender client b)).
      a = \<lparr>arg_body = JStr testMessage, arg_from = sender, arg_to = get_field b ''to''\<rparr>"
    by (cases "truthy (get_field b ''to'')") (simp_all add: test_calls test_rejected)
next
  show "truthy (get_field b ''to'')
        \<longrightarrow> calls (test_sms sender client b) =
              [\<lparr>arg_body = JStr testMessage, arg_from = sender, arg_to = get_field b ''to''\<rparr>]"
    by (simp add: test_calls)
next
  show "\<forall>r. truthy (get_field b ''to'') \<and> \<not> tostring_throws (get_field b ''to'')
          \<and> client \<lparr>arg_body = JStr testMessage, arg_from = sender,
                     arg_to = get_field b ''to''\<rparr> = Resolved r
        \<longrightarrow> response (test_sms sender client b) =
              \<lparr>status_code = 200,
               body = [(''success'', JBool True),
                       (''messageSid'', JStr (sid r)),
                       (''message'', JStr ''Test SMS sent successfully'')]\<rparr>"
    by (simp add: test_sent [of b sender client] Let_def)
next
  show "\<forall>s r. get_field b ''to'' = JStr s \<and> s \<noteq> []
          \<and> client \<lparr>arg_body = JStr testMessage, arg_from = sender, arg_to = JStr s\<rparr>
              = Resolved r
        \<longrightarrow> calls (test_sms sender client b) =
              [\<lparr>arg_body = JStr testMessage, arg_from = sender, arg_to = JStr s\<rparr>]
            \<and> response (test_sms sender client b) =
              \<lparr>status_code = 200,
               body = [(''success'', JBool True),
                       (''messageSid'', JStr (sid r)),
                       (''message'', JStr ''Test SMS sent successfully'')]\<rparr>"
  proof (intro allI impI)
    fix s r
    assume h: "get_field b ''to'' = JStr s \<and> s \<noteq> []
      \<and> client \<lparr>arg_body = JStr testMessage, arg_from = sender, arg_to = JStr s\<rparr>
          = Resolved r"
    then have t: "truthy (get_field b ''to'')" by simp
    from h t show "calls (test_sms sender client b) =
          [\<lparr>arg_body = JStr testMessage, arg_from = sender, arg_to = JStr s\<rparr>]
        \<and> response (test_sms sender client b) =
          \<lparr>status_code = 200,
           body = [(''success'', JBool True),
                   (''messageSid'', JStr (sid r)),
                   (''message'', JStr ''Test SMS sent successfully'')]\<rparr>"
      by (simp add: test_sent [of b sender client] Let_def)
  qed
next
  show "\<forall>r. truthy (get_field b ''to'') \<and> tostring_throws (get_field b ''to'')
          \<and> client \<lparr>arg_body = JStr testMessage, arg_from = sender,
                     arg_to = get_field b ''to''\<rparr> = Resolved r
        \<longrightarrow> response (test_sms sender client b) =
              \<lparr>status_code = 500,
               body = [(''success'', JBool False),
                       (''error'', JStr ''Cannot convert object to primitive value'')]\<rparr>"
    by (simp add: test_sent [of b sender client] Let_def test_catch_def type_error_def)
next
  show "\<not> truthy (get_field b ''to'')
        \<longrightarrow> calls (test_sms sender client b) = []
            \<and> response (test_sms sender client b) =
              \<lparr>status_code = 400,
               body = [(''success'', JBool False),
                       (''error'', JStr ''Phone number required'')]\<rparr>"
    by (simp add: test_rejected)
next
  show "map_of b ''to'' = None
        \<longrightarrow> status_code (response (test_sms sender client b)) = 400"
    by (simp add: test_rejected get_field_def)
qed

theorem test_sms_passes_to_through_witness:
  "get_field [(''to'', JStr ''(555) 123-4567'')] ''to'' = JStr ''(555) 123-4567''
   \<and> calls (test_sms (JStr ''+15550001111'')
        (stub_resolves \<lparr>sid = ''SM123'', status = ''queued''\<rparr>)
        [(''to'', JStr ''(555) 123-4567'')])
       = [\<lparr>arg_body = JStr testMessage, arg_from = JStr ''+15550001111'',
           arg_to = JStr ''(555) 123-4567''\<rparr>]
   \<and> response (test_sms (JStr ''+15550001111'')
        (stub_resolves \<lparr>sid = ''SM123'', status = ''queued''\<rparr>)
        [(''to'', JStr ''(555) 123-4567'')])
       = \<lparr>status_code = 200,
          body = [(''success'', JBool True),
                  (''messageSid'', JStr ''SM123''),
                  (''message'', JStr ''Test SMS sent successfully'')]\<rparr>
   \<and> map_of ([] :: (string \<times> jsval) list) ''to'' = None
   \<and> status_code (response (test_sms (JStr ''+15550001111'')
        (stub_resolves \<lparr>sid = ''SM123'', status = ''queued''\<rparr>) [])) = 400"
proof -
  let ?b = "[(''to'', JStr ''(555) 123-4567'')]"
  let ?p = "stub_resolves \<lparr>sid = ''SM123'', status = ''queued''\<rparr>"
  let ?a = "\<lparr>arg_body = JStr testMessage, arg_from = JStr ''+15550001111'',
              arg_to = JStr ''(555) 123-4567''\<rparr>"
  have g: "get_field ?b ''to'' = JStr ''(555) 123-4567''"
    by (simp add: get_field_def)
  have ne: "''(555) 123-4567'' \<noteq> []"
    by simp
  have r: "?p ?a = Resolved \<lparr>sid = ''SM123'', status = ''queued''\<rparr>"
    by (simp add: stub_resolves_def)
  note inst = test_sms_passes_to_through [of "JStr ''+15550001111''" ?p ?b]
  note inst0 = test_sms_passes_to_through [of "JStr ''+15550001111''" ?p "[]"]
  from inst have "\<forall>s r. get_field ?b ''to'' = JStr s \<and> s \<noteq> []
        \<and> ?p \<lparr>arg_body = JStr testMessage, arg_from = JStr ''+15550001111'', arg_to = JStr s\<rparr>
            = Resolved r
      \<longrightarrow> calls (test_sms (JStr ''+15550001111'') ?p ?b) =
            [\<lparr>arg_body = JStr testMessage, arg_from = JStr ''+15550001111'', arg_to = JStr s\<rparr>]
          \<and> response (test_sms (JStr ''+15550001111'') ?p ?b) =
            \<lparr>status_code = 200,
             body = [(''success'', JBool True), (''messageSid'', JStr (sid r)),
                     (''message'', JStr ''Test SMS sent successfully'')]\<rparr>"
    by (rule conjunct1 [OF conjunct2 [OF conjunct2 [OF conjunct2]]])
  with g ne r have ok: "calls (test_sms (JStr ''+15550001111'') ?p ?b) = [?a]
      \<and> response (test_sms (JStr ''+15550001111'') ?p ?b) =
      \<lparr>status_code = 200,
       body = [(''success'', JBool True), (''messageSid'', JStr ''SM123''),
               (''message'', JStr ''Test SMS sent successfully'')]\<rparr>"
    by fastforce
  from inst0 have "map_of ([] :: (string \<times> jsval) list) ''to'' = None
      \<longrightarrow> status_code (response (test_sms (JStr ''+15550001111'') ?p [])) = 400"
    by (rule conjunct2 [OF conjunct2 [OF conjunct2 [OF conjunct2 [OF conjunct2
        [OF conjunct2]]]]])
  then have "status_code (response (test_sms (JStr ''+15550001111'') ?p [])) = 400"
    by simp
  with g ok show ?thesis by simp
qed

section \<open>Both endpoints\<close>

text \<open>
  C10. On either send endpoint a request that fails validation is answered 400 without any
  provider call, and more generally whenever the answer is 400 no provider call was issued.
\<close>

theorem rejected_request_makes_no_call:
  "(\<not> truthy (get_field b ''to'') \<or> \<not> truthy (get_field b ''message'')
      \<longrightarrow> status_code (response (send_emergency_sms sender client now b)) = 400
          \<and> calls (send_emergency_sms sender client now b) = [])
   \<and> (status_code (response (send_emergency_sms sender client now b)) = 400
      \<longrightarrow> calls (send_emergency_sms sender client now b) = [])
   \<and> (\<not> truthy (get_field b ''to'')
      \<longrightarrow> status_code (response (test_sms sender client b)) = 400
          \<and> calls (test_sms sender client b) = [])
   \<and> (status_code (response (test_sms sender client b)) = 400
      \<longrightarrow> calls (test_sms sender client b) = [])"
proof (intro conjI impI)
  assume "status_code (response (send_emergency_sms sender client now b)) = 400"
  then show "calls (send_emergency_sms sender client now b) = []"
  proof (cases b rule: emergency_cases)
    case rejected
    then show ?thesis by (simp add: emergency_rejected)
  next
    case not_string
    then show ?thesis by (simp add: emergency_not_a_string)
  next
    case (log_raises s)
    then show ?thesis by (simp add: emergency_log_raises)
  next
    case (sent s)
    assume "status_code (response (send_emergency_sms sender client now b)) = 400"
    with sent show ?thesis
      by (simp add: emergency_sent [of b s sender client now] Let_def emergency_catch_def
          split: provider_outcome.splits)
  qed
next
  assume "status_code (response (test_sms sender client b)) = 400"
  then show "calls (test_sms sender client b) = []"
    by (cases "truthy (get_field b ''to'')")
      (simp_all add: test_rejected test_sent [of b sender client] Let_def test_catch_def
        split: provider_outcome.splits if_splits)
qed (simp_all add: emergency_rejected test_rejected)

theorem rejected_request_makes_no_call_witness:
  "\<not> truthy (get_field [(''to'', JStr ''5551234567'')] ''message'')
   \<and> status_code (response (send_emergency_sms (JStr ''+15550001111'')
        (stub_resolves \<lparr>sid = ''SM123'', status = ''queued''\<rparr>) ''2024-05-01T12:00:00.000Z''
        [(''to'', JStr ''5551234567'')])) = 400
   \<and> calls (send_emergency_sms (JStr ''+15550001111'')
        (stub_resolves \<lparr>sid = ''SM123'', status = ''queued''\<rparr>) ''2024-05-01T12:00:00.000Z''
        [(''to'', JStr ''5551234567'')]) = []
   \<and> \<not> truthy (get_field [(''to'', JStr [])] ''to'')
   \<and> status_code (response (test_sms (JStr ''+15550001111'')
        (stub_resolves \<lparr>sid = ''SM123'', status = ''queued''\<rparr>) [(''to'', JStr [])])) = 400
   \<and> calls (test_sms (JStr ''+15550001111'')
        (stub_resolves \<lparr>sid = ''SM123'', status = ''queued''\<rparr>) [(''to'', JStr [])]) = []"
proof -
  have m: "\<not> truthy (get_field [(''to'', JStr ''5551234567'')] ''message'')"
    by (simp add: get_field_def)
  have t: "\<not> truthy (get_field [(''to'', JStr [])] ''to'')"
    by (simp add: get_field_def)
  from m rejected_request_makes_no_call [of "[(''to'', JStr ''5551234567'')]"
      "JStr ''+15550001111''" "stub_resolves \<lparr>sid = ''SM123'', status = ''queued''\<rparr>"
      "''2024-05-01T12:00:00.000Z''"]
  have e: "status_code (response (send_emergency_sms (JStr ''+15550001111'')
        (stub_resolves \<lparr>sid = ''SM123'', status = ''queued''\<rparr>) ''2024-05-01T12:00:00.000Z''
        [(''to'', JStr ''5551234567'')])) = 400
      \<and> calls (send_emergency_sms (JStr ''+15550001111'')
        (stub_resolves \<lparr>sid = ''SM123'', status = ''queued''\<rparr>) ''2024-05-01T12:00:00.000Z''
        [(''to'', JStr ''5551234567'')]) = []"
    by simp
  from t rejected_request_makes_no_call [of "[(''to'', JStr [])]"
      "JStr ''+15550001111''" "stub_resolves \<lparr>sid = ''SM123'', status = ''queued''\<rparr>"]
  have "status_code (response (test_sms (JStr ''+15550001111'')
        (stub_resolves \<lparr>sid = ''SM123'', status = ''queued''\<rparr>) [(''to'', JStr [])])) = 400
      \<and> calls (test_sms (JStr ''+15550001111'')
        (stub_resolves \<lparr>sid = ''SM123'', status = ''queued''\<rparr>) [(''to'', JStr [])]) = []"
    by simp
  with m t e show ?thesis by simp
qed

end
